theory Spec2Isabelle
  imports Main "HOL-Library.Char_ord" "HOL-Library.List_Lexorder"
begin

section \<open>Python values\<close>

text \<open>
  The values the modelled functions receive: \<open>None\<close>, booleans, integers (unbounded) and
  strings; lists, floats and objects of other classes are outside the model. Keys of
  dictionaries are strings; a dictionary is an association list that stands for the
  mapping \<open>map_of\<close> reads from it, its key set being the first components. Strings are
  ordered as Python orders them, character by character.
\<close>

datatype pyval = PyNone | PyBool bool | PyInt int | PyStr string

type_synonym 'v dict = "(string \<times> 'v) list"

text \<open>The classes of these values, with the classes the code tests against.\<close>

datatype pytype = NoneType | TBool | TInt | TStr | TList | TObject

fun type_of :: "pyval \<Rightarrow> pytype" where
  "type_of PyNone = NoneType"
| "type_of (PyBool b) = TBool"
| "type_of (PyInt i) = TInt"
| "type_of (PyStr s) = TStr"

text \<open>\<open>bool\<close> is a subclass of \<open>int\<close>, and every class is a subclass of \<open>object\<close>.\<close>

definition issubclass :: "pytype \<Rightarrow> pytype \<Rightarrow> bool" where
  "issubclass c d = (c = d \<or> d = TObject \<or> (c = TBool \<and> d = TInt))"

definition isinstance :: "pyval \<Rightarrow> pytype \<Rightarrow> bool" where
  "isinstance v t = issubclass (type_of v) t"

text \<open>
  \<open>==\<close>: \<open>None\<close> equals only itself, a boolean compares with an integer as 0 or 1,
  strings compare character by character, and values of unrelated classes differ.
\<close>

fun py_eq :: "pyval \<Rightarrow> pyval \<Rightarrow> bool" where
  "py_eq PyNone PyNone = True"
| "py_eq (PyBool a) (PyBool b) = (a = b)"
| "py_eq (PyBool a) (PyInt j) = ((if a then 1 else 0) = j)"
| "py_eq (PyInt i) (PyBool b) = (i = (if b then 1 else 0))"
| "py_eq (PyInt i) (PyInt j) = (i = j)"
| "py_eq (PyStr s) (PyStr t) = (s = t)"
| "py_eq _ _ = False"

text \<open>Truth value of a value: \<open>None\<close>, \<open>False\<close>, 0 and the empty string are falsy.\<close>

fun truthy :: "pyval \<Rightarrow> bool" where
  "truthy PyNone = False"
| "truthy (PyBool b) = b"
| "truthy (PyInt i) = (i \<noteq> 0)"
| "truthy (PyStr s) = (s \<noteq> [])"

text \<open>\<open>str()\<close>: decimal digits for an integer, the string itself for a string.\<close>

definition digit_char :: "nat \<Rightarrow> char" where
  "digit_char n = ''0123456789'' ! n"

fun str_of_nat :: "nat \<Rightarrow> string" where
  "str_of_nat n =
     (if n < 10 then [digit_char n] else str_of_nat (n div 10) @ [digit_char (n mod 10)])"

declare str_of_nat.simps [simp del]

fun py_str :: "pyval \<Rightarrow> string" where
  "py_str PyNone = ''None''"
| "py_str (PyBool b) = (if b then ''True'' else ''False'')"
| "py_str (PyInt i) = (if i < 0 then CHR ''-'' # str_of_nat (nat (- i)) else str_of_nat (nat i))"
| "py_str (PyStr s) = s"

text \<open>\<open>str.lower()\<close> on the ASCII letters.\<close>

definition lower_char :: "char \<Rightarrow> char" where
  "lower_char c =
     (case map_of (zip ''ABCDEFGHIJKLMNOPQRSTUVWXYZ'' ''abcdefghijklmnopqrstuvwxyz'') c of
        None \<Rightarrow> c | Some l \<Rightarrow> l)"

definition lower :: "string \<Rightarrow> string" where
  "lower s = map lower_char s"

section \<open>Resolved variables and exceptions\<close>

text \<open>
  The value of a resolved variable is a plain value or a \<open>CFNParameter\<close> object, which
  holds the name of the CloudFormation parameter and the value to submit for it.
\<close>

datatype resolved_value = Plain pyval | CFNParameter string pyval

text \<open>
  The messages of the \<open>ValueError\<close>s the code raises, by their arguments: the type
  mismatch names the variable, the expected type and the actual type.
\<close>

datatype value_error =
    Text string
  | MustBeOfType string pytype pytype
  | InvalidValuePassed string string resolved_value "pyval list option"
  | CFNParameterValue string pyval
  | InvalidPlaceholder

datatype exn =
    KeyError string
  | ValueError value_error
  | AttributeError string
  | ImportError string
  | RuntimeError string
  | MissingVariable string string
  | UnresolvedVariable string string
  | VariableTypeRequired string string
  | ValidatorError string string pyval exn
  | InvalidUserdataPlaceholder string
  | StackDidNotChange
  | SystemExit int
  | KeyboardInterrupt

text \<open>
  \<open>except Exception\<close> catches every exception but those that derive from
  \<open>BaseException\<close> only.
\<close>

fun is_Exception :: "exn \<Rightarrow> bool" where
  "is_Exception (SystemExit c) = False"
| "is_Exception KeyboardInterrupt = False"
| "is_Exception _ = True"

text \<open>\<open>d[k]\<close> raises \<open>KeyError\<close> on a missing key.\<close>

definition getitem :: "'v dict \<Rightarrow> string \<Rightarrow> exn + 'v" where
  "getitem d k = (case map_of d k of None \<Rightarrow> Inl (KeyError k) | Some v \<Rightarrow> Inr v)"

definition keys :: "'v dict \<Rightarrow> string list" where
  "keys d = remdups (map fst d)"

section \<open>The diff of two dictionaries (cfngin/actions/diff.py)\<close>

datatype diff_status = ADDED | REMOVED | MODIFIED | UNMODIFIED

record DictValue =
  key :: string
  old_value :: pyval
  new_value :: pyval

definition status :: "DictValue \<Rightarrow> diff_status" where
  "status dv =
     (if py_eq (old_value dv) (new_value dv) then UNMODIFIED
      else if old_value dv = PyNone then ADDED
      else if new_value dv = PyNone then REMOVED
      else MODIFIED)"

text \<open>
  The three loops of \<open>diff_dictionaries\<close>, each over the keys of one set, on the running
  pair of the change count and the output list.
\<close>

fun added_loop :: "string list \<Rightarrow> pyval dict \<Rightarrow> nat \<times> DictValue list \<Rightarrow>
    exn + (nat \<times> DictValue list)" where
  "added_loop [] new_dict acc = Inr acc"
| "added_loop (k # ks) new_dict (changes, output) =
     (case getitem new_dict k of
        Inl e \<Rightarrow> Inl e
      | Inr v \<Rightarrow> added_loop ks new_dict
          (changes + 1, output @ [\<lparr>key = k, old_value = PyNone, new_value = v\<rparr>]))"

fun removed_loop :: "string list \<Rightarrow> pyval dict \<Rightarrow> nat \<times> DictValue list \<Rightarrow>
    exn + (nat \<times> DictValue list)" where
  "removed_loop [] old_dict acc = Inr acc"
| "removed_loop (k # ks) old_dict (changes, output) =
     (case getitem old_dict k of
        Inl e \<Rightarrow> Inl e
      | Inr v \<Rightarrow> removed_loop ks old_dict
          (changes + 1, output @ [\<lparr>key = k, old_value = v, new_value = PyNone\<rparr>]))"

fun common_loop :: "string list \<Rightarrow> pyval dict \<Rightarrow> pyval dict \<Rightarrow> nat \<times> DictValue list \<Rightarrow>
    exn + (nat \<times> DictValue list)" where
  "common_loop [] old_dict new_dict acc = Inr acc"
| "common_loop (k # ks) old_dict new_dict (changes, output) =
     (case getitem old_dict k of
        Inl e \<Rightarrow> Inl e
      | Inr ov \<Rightarrow>
          (case getitem new_dict k of
             Inl e \<Rightarrow> Inl e
           | Inr nv \<Rightarrow> common_loop ks old_dict new_dict
               (if py_str ov \<noteq> py_str nv then changes + 1 else changes,
                output @ [\<lparr>key = k, old_value = ov, new_value = nv\<rparr>])))"

text \<open>
  The body of \<open>diff_dictionaries\<close> once the three key sets are enumerated. Python fixes no
  order for the iteration over a set, so the enumerations are arguments here;
  \<open>diff_dictionaries\<close> picks one, and the result is the same for every other
  (lemma \<open>diff_loops_any_order\<close>), since the output is sorted by key at the end.
\<close>

definition diff_loops :: "string list \<Rightarrow> string list \<Rightarrow> string list \<Rightarrow>
    pyval dict \<Rightarrow> pyval dict \<Rightarrow> exn + (nat \<times> DictValue list)" where
  "diff_loops added_set removed_set common_set old_dict new_dict =
     (case added_loop added_set new_dict (0, []) of
        Inl e \<Rightarrow> Inl e
      | Inr acc1 \<Rightarrow>
          (case removed_loop removed_set old_dict acc1 of
             Inl e \<Rightarrow> Inl e
           | Inr acc2 \<Rightarrow>
               (case common_loop common_set old_dict new_dict acc2 of
                  Inl e \<Rightarrow> Inl e
                | Inr (changes, output) \<Rightarrow> Inr (changes, sort_key key output))))"

definition diff_dictionaries :: "pyval dict \<Rightarrow> pyval dict \<Rightarrow> exn + (nat \<times> DictValue list)" where
  "diff_dictionaries old_dict new_dict =
     (let old_set = keys old_dict;
          new_set = keys new_dict;
          added_set = filter (\<lambda>k. k \<notin> set old_set) new_set;
          removed_set = filter (\<lambda>k. k \<notin> set new_set) old_set;
          common_set = filter (\<lambda>k. k \<in> set new_set) old_set
      in diff_loops added_set removed_set common_set old_dict new_dict)"


text \<open>
  For stating what the diff returns: \<open>get d k\<close> is \<open>d.get(k)\<close> (\<open>None\<close> for a
  missing key), \<open>entry\<close> the \<open>DictValue\<close> of a key, \<open>all_keys\<close> the keys of either
  dictionary in ascending order.
\<close>

definition get :: "pyval dict \<Rightarrow> string \<Rightarrow> pyval" where
  "get d k = (case map_of d k of None \<Rightarrow> PyNone | Some v \<Rightarrow> v)"

definition entry :: "pyval dict \<Rightarrow> pyval dict \<Rightarrow> string \<Rightarrow> DictValue" where
  "entry old_dict new_dict k = \<lparr>key = k, old_value = get old_dict k, new_value = get new_dict k\<rparr>"

definition str_differs :: "pyval dict \<Rightarrow> pyval dict \<Rightarrow> string \<Rightarrow> bool" where
  "str_differs old_dict new_dict k = (py_str (get old_dict k) \<noteq> py_str (get new_dict k))"

definition all_keys :: "pyval dict \<Rightarrow> pyval dict \<Rightarrow> string list" where
  "all_keys old_dict new_dict = sorted_list_of_set (fst ` set old_dict \<union> fst ` set new_dict)"

definition change_count :: "pyval dict \<Rightarrow> pyval dict \<Rightarrow> nat" where
  "change_count old_dict new_dict =
     card (fst ` set new_dict - fst ` set old_dict) + card (fst ` set old_dict - fst ` set new_dict) +
     card {k \<in> fst ` set old_dict \<inter> fst ` set new_dict. str_differs old_dict new_dict k}"

section \<open>Variables of a blueprint (cfngin/blueprints/base.py)\<close>

subsection \<open>\<open>CFNParameter\<close>\<close>

text \<open>
  The loop of \<open>CFNParameter.__init__\<close> over the acceptable types, on the pair of the flag
  \<open>acceptable\<close> and the value; a boolean or an integer is converted to a string and the
  loop left. \<open>string_types\<close> is \<open>str\<close>.
\<close>

fun acceptable_loop :: "pytype list \<Rightarrow> bool \<times> pyval \<Rightarrow> bool \<times> pyval" where
  "acceptable_loop [] (acceptable, v) = (acceptable, v)"
| "acceptable_loop (acceptable_type # ts) (acceptable, v) =
     (if isinstance v acceptable_type then
        (if acceptable_type = TBool then (True, PyStr (lower (py_str v)))
         else if acceptable_type = TInt then (True, PyStr (py_str v))
         else acceptable_loop ts (True, v))
      else acceptable_loop ts (acceptable, v))"

definition CFNParameter_init :: "string \<Rightarrow> pyval \<Rightarrow> exn + resolved_value" where
  "CFNParameter_init name v =
     (case acceptable_loop [TStr, TBool, TList, TInt] (False, v) of
        (acceptable, v') \<Rightarrow>
          if \<not> acceptable then Inl (ValueError (CFNParameterValue name v'))
          else Inr (CFNParameter name v'))"

fun to_parameter_value :: "resolved_value \<Rightarrow> pyval" where
  "to_parameter_value (CFNParameter name v) = v"
| "to_parameter_value (Plain v) = v"

fun is_CFNParameter :: "resolved_value \<Rightarrow> bool" where
  "is_CFNParameter (CFNParameter name v) = True"
| "is_CFNParameter (Plain v) = False"

subsection \<open>Declared types and variable definitions\<close>

text \<open>
  Modelled from the spec: the classes \<open>CFNType\<close> and \<open>TroposphereType\<close> of
  \<open>variables/types.py\<close>, which is not among the sources. The declared type of a variable
  is a provider-parameter type (an instance of \<open>CFNType\<close>, with the name of its parameter
  type), a typed-resource type (an instance of \<open>TroposphereType\<close>, with its resource name
  and its factory \<open>create\<close>, which may raise), or any other class.
\<close>

datatype var_type =
    CFNType string
  | TroposphereType string "pyval \<Rightarrow> exn + resolved_value"
  | PyType pytype

text \<open>
  A variable definition is a dictionary with the keys \<open>type\<close>, \<open>default\<close>, \<open>validator\<close>
  and \<open>allowed_values\<close>, each of which may be missing. A validator is a function with a
  name, which returns a value or raises.
\<close>

record var_def =
  def_type :: "var_type option"
  def_default :: "pyval option"
  def_validator :: "(string \<times> (pyval \<Rightarrow> exn + pyval)) option"
  def_allowed_values :: "pyval list option"

text \<open>
  Modelled from the spec: the class \<open>Variable\<close> of \<open>runway/variables.py\<close>, which is not among
  the sources: a name, the flag \<open>resolved\<close> and the resolved value. A variable that was
  not provided is \<open>None\<close>; a \<open>Variable\<close> object is truthy.
\<close>

record Variable =
  variable_name :: string
  resolved :: bool
  variable_value :: pyval

subsection \<open>Resolving a variable\<close>

definition validate_variable_type :: "string \<Rightarrow> var_type \<Rightarrow> pyval \<Rightarrow> exn + resolved_value" where
  "validate_variable_type var_name vtype v =
     (case vtype of
        CFNType parameter_type \<Rightarrow> CFNParameter_init var_name v
      | TroposphereType resource_name create \<Rightarrow>
          (case create v of
             Inl exc \<Rightarrow>
               if is_Exception exc
               then Inl (ValidatorError var_name (resource_name @ ''.create'') v exc)
               else Inl exc
           | Inr created \<Rightarrow> Inr created)
      | PyType t \<Rightarrow>
          if \<not> isinstance v t then Inl (ValueError (MustBeOfType var_name t (type_of v)))
          else Inr (Plain v))"

text \<open>\<open>value in allowed_values\<close>: some element of the list equals the value.\<close>

fun py_in :: "resolved_value \<Rightarrow> pyval list \<Rightarrow> bool" where
  "py_in (Plain v) xs = list_ex (\<lambda>x. py_eq x v) xs"
| "py_in (CFNParameter name v) xs = False"

definition validate_allowed_values :: "pyval list option \<Rightarrow> resolved_value \<Rightarrow> bool" where
  "validate_allowed_values allowed_values v =
     (case allowed_values of
        None \<Rightarrow> True
      | Some allowed \<Rightarrow> if allowed = [] \<or> is_CFNParameter v then True else py_in v allowed)"

text \<open>
  \<open>resolve_variable\<close>, in the order of the source: the declared type is read first; the
  value is that of the provided variable, which has to be resolved, or else the default;
  the validator (the identity when there is none) is applied to it; the result is
  checked against the declared type and then against the allowed values.
\<close>

definition provided_or_default :: "string \<Rightarrow> var_def \<Rightarrow> Variable option \<Rightarrow> string \<Rightarrow>
    exn + pyval" where
  "provided_or_default var_name vdef provided_variable blueprint_name =
     (case provided_variable of
        Some pv \<Rightarrow>
          if \<not> resolved pv then Inl (UnresolvedVariable blueprint_name (variable_name pv))
          else Inr (variable_value pv)
      | None \<Rightarrow>
          (case def_default vdef of
             None \<Rightarrow> Inl (MissingVariable blueprint_name var_name)
           | Some d \<Rightarrow> Inr d))"

definition apply_validator :: "string \<Rightarrow> var_def \<Rightarrow> pyval \<Rightarrow> exn + pyval" where
  "apply_validator var_name vdef v =
     (case (case def_validator vdef of
              None \<Rightarrow> (''<lambda>'', \<lambda>v. Inr v)
            | Some named_validator \<Rightarrow> named_validator) of
        (validator_name, validator) \<Rightarrow>
          (case validator v of
             Inl exc \<Rightarrow>
               if is_Exception exc then Inl (ValidatorError var_name validator_name v exc)
               else Inl exc
           | Inr v' \<Rightarrow> Inr v'))"

definition resolve_variable :: "string \<Rightarrow> var_def \<Rightarrow> Variable option \<Rightarrow> string \<Rightarrow>
    exn + resolved_value" where
  "resolve_variable var_name vdef provided_variable blueprint_name =
     (case def_type vdef of
        None \<Rightarrow> Inl (VariableTypeRequired blueprint_name var_name)
      | Some vtype \<Rightarrow>
          (case provided_or_default var_name vdef provided_variable blueprint_name of
             Inl e \<Rightarrow> Inl e
           | Inr v \<Rightarrow>
               (case apply_validator var_name vdef v of
                  Inl e \<Rightarrow> Inl e
                | Inr v' \<Rightarrow>
                    (case validate_variable_type var_name vtype v' of
                       Inl e \<Rightarrow> Inl e
                     | Inr v'' \<Rightarrow>
                         (let allowed_values = def_allowed_values vdef
                          in if \<not> validate_allowed_values allowed_values v''
                             then Inl (ValueError
                                    (InvalidValuePassed var_name blueprint_name v'' allowed_values))
                             else Inr v'')))))"

subsection \<open>User data\<close>

text \<open>
  \<open>string.Template\<close> of Python's library, which \<open>parse_user_data\<close> applies: an identifier
  starts with a letter or an underscore and goes on with letters, digits and underscores.
\<close>

definition idstart :: "char \<Rightarrow> bool" where
  "idstart c = (c \<in> set ''_abcdefghijklmnopqrstuvwxyzABCDEFGHIJKLMNOPQRSTUVWXYZ'')"

definition idchar :: "char \<Rightarrow> bool" where
  "idchar c = (idstart c \<or> c \<in> set ''0123456789'')"

text \<open>
  What follows a \<open>$\<close>, the alternatives tried in the order of the library's pattern: a
  second \<open>$\<close>, an identifier (the longest there is), an identifier in braces, or else
  an invalid placeholder, which matches nothing. The second component is the text after
  the match.
\<close>

datatype placeholder = Escaped | Named string | Braced string | Invalid

fun match_placeholder :: "string \<Rightarrow> placeholder \<times> string" where
  "match_placeholder [] = (Invalid, [])"
| "match_placeholder (d # ds) =
     (if d = CHR ''$'' then (Escaped, ds)
      else if idstart d then (Named (takeWhile idchar (d # ds)), dropWhile idchar (d # ds))
      else if d = CHR ''{'' then
        (case ds of
           [] \<Rightarrow> (Invalid, d # ds)
         | e # es \<Rightarrow>
             if idstart e then
               (case dropWhile idchar ds of
                  [] \<Rightarrow> (Invalid, d # ds)
                | f # fs \<Rightarrow> if f = CHR ''}'' then (Braced (takeWhile idchar ds), fs)
                            else (Invalid, d # ds))
             else (Invalid, d # ds))
      else (Invalid, d # ds))"

text \<open>
  \<open>Template.substitute\<close>: the text is copied up to each \<open>$\<close>; the placeholders are
  replaced from left to right, a name by \<open>str\<close> of its value in the mapping
  (\<open>KeyError\<close> when it has none), \<open>$$\<close> by \<open>$\<close>; an invalid placeholder raises
  \<open>ValueError\<close>, whose message (the line and column of the \<open>$\<close>) is left out.
\<close>

function substitute :: "pyval dict \<Rightarrow> string \<Rightarrow> exn + string" where
  "substitute mapping [] = Inr []"
| "substitute mapping (c # cs) =
     (if c \<noteq> CHR ''$'' then
        (case substitute mapping cs of Inl e \<Rightarrow> Inl e | Inr r \<Rightarrow> Inr (c # r))
      else
        (case match_placeholder cs of
           (Escaped, rest) \<Rightarrow>
             (case substitute mapping rest of Inl e \<Rightarrow> Inl e | Inr r \<Rightarrow> Inr (CHR ''$'' # r))
         | (Named named, rest) \<Rightarrow>
             (case getitem mapping named of
                Inl e \<Rightarrow> Inl e
              | Inr v \<Rightarrow>
                  (case substitute mapping rest of Inl e \<Rightarrow> Inl e | Inr r \<Rightarrow> Inr (py_str v @ r)))
         | (Braced named, rest) \<Rightarrow>
             (case getitem mapping named of
                Inl e \<Rightarrow> Inl e
              | Inr v \<Rightarrow>
                  (case substitute mapping rest of Inl e \<Rightarrow> Inl e | Inr r \<Rightarrow> Inr (py_str v @ r)))
         | (Invalid, rest) \<Rightarrow> Inl (ValueError InvalidPlaceholder)))"
  by pat_completeness auto
termination
proof -
  have shorter: "length rest \<le> length cs" if "match_placeholder cs = (tok, rest)" for cs tok rest
  proof (cases cs)
    case Nil
    with that show ?thesis by simp
  next
    case (Cons d ds)
    have "length (dropWhile idchar ds) \<le> length ds"
      by (rule length_dropWhile_le)
    moreover have "length fs < length (dropWhile idchar ds)" if "dropWhile idchar ds = f # fs" for f fs
      using that by simp
    ultimately show ?thesis
      using Cons \<open>match_placeholder cs = (tok, rest)\<close>
      by (auto split: if_splits list.splits simp del: dropWhile_eq_Cons_conv
          intro: le_trans [OF length_dropWhile_le] le_SucI)
  qed
  show ?thesis
    by (relation "measure (\<lambda>(mapping, s). length s)") (auto dest: shorter [OF sym])
qed

text \<open>
  \<open>parse_user_data\<close>: the loop that fills \<open>variable_values\<close> takes the parameter value of
  a \<open>CFNParameter\<close> and any other value as it is.
\<close>

definition variable_values :: "resolved_value dict \<Rightarrow> pyval dict" where
  "variable_values variables = map (\<lambda>(k, v). (k, to_parameter_value v)) variables"

definition parse_user_data :: "resolved_value dict \<Rightarrow> string \<Rightarrow> string \<Rightarrow> exn + string" where
  "parse_user_data variables raw_user_data blueprint_name =
     (case substitute (variable_values variables) raw_user_data of
        Inl (ValueError err) \<Rightarrow> Inl (InvalidUserdataPlaceholder blueprint_name)
      | Inl (KeyError k) \<Rightarrow> Inl (MissingVariable blueprint_name k)
      | Inl e \<Rightarrow> Inl e
      | Inr res \<Rightarrow> Inr res)"


text \<open>
  For stating what the substitution does: a text built from pieces, each a literal
  without \<open>$\<close> or a placeholder \<open>${name}\<close> with an identifier for its name.
\<close>

datatype piece = Literal string | Placeholder string

fun render :: "piece \<Rightarrow> string" where
  "render (Literal s) = s"
| "render (Placeholder n) = ''${'' @ n @ ''}''"

definition is_identifier :: "string \<Rightarrow> bool" where
  "is_identifier n = (case n of [] \<Rightarrow> False | c # cs \<Rightarrow> idstart c \<and> list_all idchar cs)"

fun well_formed :: "piece \<Rightarrow> bool" where
  "well_formed (Literal s) = (CHR ''$'' \<notin> set s)"
| "well_formed (Placeholder n) = is_identifier n"

fun defined_in :: "'v dict \<Rightarrow> piece \<Rightarrow> bool" where
  "defined_in variables (Literal s) = True"
| "defined_in variables (Placeholder n) = (n \<in> fst ` set variables)"

text \<open>
  What a piece is replaced by: a literal by itself, a placeholder by the string of the
  variable of its name, which for a \<open>CFNParameter\<close> is the string of the value it holds.
\<close>

fun expand :: "resolved_value dict \<Rightarrow> piece \<Rightarrow> string" where
  "expand variables (Literal s) = s"
| "expand variables (Placeholder n) =
     (case map_of variables n of
        None \<Rightarrow> []
      | Some (Plain v) \<Rightarrow> py_str v
      | Some (CFNParameter parameter_name held) \<Rightarrow> py_str held)"

text \<open>
  The text after a \<open>$\<close> makes the placeholder invalid when it is empty, or starts with
  neither a second \<open>$\<close> nor a letter or underscore nor an identifier in braces: after a
  \<open>{\<close>, the text up to the first \<open>}\<close> has to be an identifier, and the \<open>}\<close> has to be
  there.
\<close>

definition invalid_placeholder :: "string \<Rightarrow> bool" where
  "invalid_placeholder rest =
     (case rest of
        [] \<Rightarrow> True
      | c # t \<Rightarrow>
          c \<noteq> CHR ''$'' \<and> \<not> idstart c \<and>
          (if c = CHR ''{''
           then \<not> (CHR ''}'' \<in> set t \<and> is_identifier (takeWhile (\<lambda>x. x \<noteq> CHR ''}'') t))
           else True))"

text \<open>A validator that returns another value than its argument, as an example.\<close>

definition double_validator :: "pyval \<Rightarrow> exn + pyval" where
  "double_validator v = (case v of PyInt i \<Rightarrow> Inr (PyInt (2 * i)) | _ \<Rightarrow> Inl (ValueError (Text ''not an integer'')))"

section \<open>Hooks (cfngin/hooks/utils.py)\<close>

text \<open>
  What a handler returns is a mapping or some other value; the empty mapping is falsy, as
  are the falsy plain values.
\<close>

datatype hook_result = Mapping "pyval dict" | Value pyval

fun result_truthy :: "hook_result \<Rightarrow> bool" where
  "result_truthy (Mapping d) = (d \<noteq> [])"
| "result_truthy (Value v) = truthy v"

fun is_Mapping :: "hook_result \<Rightarrow> bool" where
  "is_Mapping (Mapping d) = True"
| "is_Mapping (Value v) = False"

text \<open>
  Modelled from the spec: the class \<open>Hook\<close> of \<open>cfngin/config.py\<close>, which is not among the
  sources: a path, a data key, the flags \<open>required\<close> and \<open>enabled\<close>, and the arguments. Every
  hook has a path, so the \<open>KeyError\<close> that the first loop of \<open>handle_hooks\<close> turns into a
  \<open>ValueError\<close> does not arise, and that loop is \<open>map path\<close>.
\<close>

record Hook =
  path :: string
  data_key :: "string option"
  required :: bool
  enabled :: bool
  args :: "pyval dict option"

text \<open>
  Modelled from the spec: the class \<open>Context\<close> of \<open>cfngin/context.py\<close>, which is not among
  the sources: the run-scoped data of the hooks, by data key.
\<close>

record Context =
  hook_data :: "hook_result dict"

text \<open>
  Modelled from the spec: \<open>Context.set_hook_data\<close>, which stores the result under the data
  key and overwrites any prior value of that key.
\<close>

definition set_hook_data :: "string \<Rightarrow> hook_result \<Rightarrow> Context \<Rightarrow> Context" where
  "set_hook_data k data c =
     c\<lparr>hook_data := filter (\<lambda>(k', d). k' \<noteq> k) (hook_data c) @ [(k, data)]\<rparr>"

text \<open>
  The records written to the logger, by the method called (\<open>EXCEPTION\<close> for
  \<open>LOGGER.exception\<close>) and the message with its arguments. The state of a run is the
  context and the log.
\<close>

datatype level = DEBUG | INFO | WARNING | ERROR | EXCEPTION

datatype message =
    NoHooksDefined string
  | ExecutingHooks string "string list"
  | HookDisabled string
  | UnableToLoad string
  | MethodThrew string
  | RequiredHookFailed string hook_result
  | NonRequiredHookFailed string hook_result
  | AddingResult string string
  | NoDataKey string
  | NoChanges string

record run_state =
  run_context :: Context
  log :: "(level \<times> message) list"

definition logged :: "level \<Rightarrow> message \<Rightarrow> run_state \<Rightarrow> run_state" where
  "logged l m st = st\<lparr>log := log st @ [(l, m)]\<rparr>"

text \<open>
  A handler is called with the provider, the context and the arguments of the hook; it
  returns a result or raises, and may change the context. \<open>load_object_from_string\<close> is
  in \<open>runway.util\<close>, which is not among the sources: it is an argument of the model, a
  function from a path to a handler, which may raise.
\<close>

type_synonym 'p handler = "'p \<Rightarrow> Context \<Rightarrow> pyval dict \<Rightarrow> (exn + hook_result) \<times> Context"

fun load_error :: "exn \<Rightarrow> bool" where
  "load_error (AttributeError m) = True"
| "load_error (ImportError m) = True"
| "load_error _ = False"

text \<open>
  The body of the loop of \<open>handle_hooks\<close> over the hooks: \<open>None\<close> when the loop goes on to
  the next hook, the exception that leaves \<open>handle_hooks\<close> otherwise (\<open>SystemExit\<close> for
  \<open>sys.exit\<close>). \<open>except Exception\<close> does not catch \<open>SystemExit\<close> or
  \<open>KeyboardInterrupt\<close>. \<open>collections.Mapping\<close> is read as the class of the mappings.
\<close>

definition hook_step :: "'p \<Rightarrow> (string \<Rightarrow> exn + 'p handler) \<Rightarrow> Hook \<Rightarrow> run_state \<Rightarrow>
    exn option \<times> run_state" where
  "hook_step provider load_object_from_string hook st =
     (let kwargs = (case args hook of None \<Rightarrow> [] | Some a \<Rightarrow> a)
      in if \<not> enabled hook then (None, logged DEBUG (HookDisabled (path hook)) st)
         else
           (case load_object_from_string (path hook) of
              Inl e \<Rightarrow>
                if load_error e then
                  (let st' = logged EXCEPTION (UnableToLoad (path hook)) st
                   in if required hook then (Some e, st') else (None, st'))
                else (Some e, st)
            | Inr hook_method \<Rightarrow>
                (case hook_method provider (run_context st) kwargs of
                   (Inl e, c) \<Rightarrow>
                     if is_Exception e then
                       (let st' = logged EXCEPTION (MethodThrew (path hook)) (st\<lparr>run_context := c\<rparr>)
                        in if required hook then (Some e, st') else (None, st'))
                     else (Some e, st\<lparr>run_context := c\<rparr>)
                 | (Inr result, c) \<Rightarrow>
                     if \<not> result_truthy result then
                       (if required hook
                        then (Some (SystemExit 1),
                              logged ERROR (RequiredHookFailed (path hook) result) (st\<lparr>run_context := c\<rparr>))
                        else (None,
                              logged WARNING (NonRequiredHookFailed (path hook) result)
                                (st\<lparr>run_context := c\<rparr>)))
                     else if is_Mapping result then
                       (case data_key hook of
                          None \<Rightarrow> (None, logged DEBUG (NoDataKey (path hook)) (st\<lparr>run_context := c\<rparr>))
                        | Some k \<Rightarrow>
                            if k = [] then
                              (None, logged DEBUG (NoDataKey (path hook)) (st\<lparr>run_context := c\<rparr>))
                            else
                              (None,
                               (logged DEBUG (AddingResult (path hook) k) (st\<lparr>run_context := c\<rparr>))
                                 \<lparr>run_context := set_hook_data k result c\<rparr>))
                     else (None, st\<lparr>run_context := c\<rparr>))))"

fun run_hooks :: "'p \<Rightarrow> (string \<Rightarrow> exn + 'p handler) \<Rightarrow> Hook list \<Rightarrow> run_state \<Rightarrow>
    exn option \<times> run_state" where
  "run_hooks provider load_object_from_string [] st = (None, st)"
| "run_hooks provider load_object_from_string (hook # hooks) st =
     (case hook_step provider load_object_from_string hook st of
        (None, st') \<Rightarrow> run_hooks provider load_object_from_string hooks st'
      | (Some e, st') \<Rightarrow> (Some e, st'))"

definition handle_hooks :: "string \<Rightarrow> Hook list \<Rightarrow> 'p \<Rightarrow> (string \<Rightarrow> exn + 'p handler) \<Rightarrow>
    run_state \<Rightarrow> exn option \<times> run_state" where
  "handle_hooks stage hooks provider load_object_from_string st =
     (if hooks = [] then (None, logged DEBUG (NoHooksDefined stage) st)
      else
        (let hook_paths = map path hooks
         in run_hooks provider load_object_from_string hooks
              (logged INFO (ExecutingHooks stage hook_paths) st)))"

text \<open>Handlers, hooks and a first state, as examples.\<close>

definition example_load :: "string \<Rightarrow> exn + unit handler" where
  "example_load p =
     (if p = ''hooks.falsy'' then Inr (\<lambda>provider c kwargs. (Inr (Value (PyInt 0)), c))
      else if p = ''hooks.empty'' then Inr (\<lambda>provider c kwargs. (Inr (Mapping []), c))
      else if p = ''hooks.raises'' then Inr (\<lambda>provider c kwargs. (Inl (RuntimeError ''boom''), c))
      else if p = ''hooks.exits'' then Inr (\<lambda>provider c kwargs. (Inl (SystemExit 2), c))
      else if p = ''hooks.data'' then
        Inr (\<lambda>provider c kwargs. (Inr (Mapping [(''id'', PyInt 7)]), c))
      else Inl (ImportError p))"

definition example_hook :: "string \<Rightarrow> string \<Rightarrow> bool \<Rightarrow> Hook" where
  "example_hook p k req =
     \<lparr>path = p, data_key = Some k, required = req, enabled = True, args = None\<rparr>"

definition start :: run_state where
  "start = \<lparr>run_context = \<lparr>hook_data = []\<rparr>, log = []\<rparr>"

section \<open>The diff action (cfngin/actions/diff.py)\<close>

text \<open>
  Modelled from the spec: the statuses that \<open>_diff_stack\<close> returns (\<open>cfngin/status.py\<close>) and
  the class \<open>Stack\<close> (\<open>cfngin/stack.py\<close>), with its fully qualified name and its outputs;
  neither file is among the sources.
\<close>

datatype stack_status = COMPLETE | INTERRUPTED | NotSubmittedStatus | NotUpdatedStatus

record Stack =
  fqn :: string
  outputs :: "pyval dict"

text \<open>
  What \<open>_diff_stack\<close> calls, none of it among the sources, as the fields of the action:
  whether the cancellation flag is set, \<open>build.should_submit\<close> and \<open>build.should_update\<close>,
  and the calls that may raise: \<open>build_provider\<close>, \<open>build.build_stack_tags\<close>,
  \<open>stack.resolve\<close> (which returns the resolved stack), \<open>build_parameters\<close>, \<open>_template\<close> and
  the provider's \<open>get_stack_changes\<close>.
\<close>

record 'p Action =
  cancel_wait :: bool
  should_submit :: "Stack \<Rightarrow> bool"
  should_update :: "Stack \<Rightarrow> bool"
  build_provider :: "Stack \<Rightarrow> exn + 'p"
  build_stack_tags :: "Stack \<Rightarrow> exn + pyval dict"
  resolve :: "'p \<Rightarrow> Stack \<Rightarrow> exn + Stack"
  build_parameters :: "Stack \<Rightarrow> exn + pyval dict"
  template :: "Stack \<Rightarrow> exn + string"
  get_stack_changes :: "'p \<Rightarrow> Stack \<Rightarrow> string \<Rightarrow> pyval dict \<Rightarrow> pyval dict \<Rightarrow> exn + pyval dict"

text \<open>
  \<open>_diff_stack\<close>: the result or the exception that leaves it, the stack and the log. The
  template is built inside the \<open>try\<close>, as an argument of \<open>get_stack_changes\<close>.
\<close>

definition diff_stack :: "'p Action \<Rightarrow> Stack \<Rightarrow> (level \<times> message) list \<Rightarrow>
    (exn + stack_status) \<times> Stack \<times> (level \<times> message) list" where
  "diff_stack self stack lg =
     (if cancel_wait self then (Inr INTERRUPTED, stack, lg)
      else if \<not> should_submit self stack then (Inr NotSubmittedStatus, stack, lg)
      else if \<not> should_update self stack then (Inr NotUpdatedStatus, stack, lg)
      else
        (case build_provider self stack of
           Inl e \<Rightarrow> (Inl e, stack, lg)
         | Inr provider \<Rightarrow>
             (case build_stack_tags self stack of
                Inl e \<Rightarrow> (Inl e, stack, lg)
              | Inr tags \<Rightarrow>
                  (case resolve self provider stack of
                     Inl e \<Rightarrow> (Inl e, stack, lg)
                   | Inr stack' \<Rightarrow>
                       (case build_parameters self stack' of
                          Inl e \<Rightarrow> (Inl e, stack', lg)
                        | Inr parameters \<Rightarrow>
                            (case (case template self stack' of
                                     Inl e \<Rightarrow> Inl e
                                   | Inr t \<Rightarrow>
                                       get_stack_changes self provider stack' t parameters tags) of
                               Inl StackDidNotChange \<Rightarrow>
                                 (Inr COMPLETE, stack', lg @ [(INFO, NoChanges (fqn stack'))])
                             | Inl e \<Rightarrow> (Inl e, stack', lg)
                             | Inr outs \<Rightarrow> (Inr COMPLETE, stack'\<lparr>outputs := outs\<rparr>, lg)))))))"

text \<open>An action whose provider reports changes or none, as an example.\<close>

definition example_action :: "bool \<Rightarrow> unit Action" where
  "example_action changed =
     \<lparr>cancel_wait = False,
      should_submit = (\<lambda>stack. True),
      should_update = (\<lambda>stack. True),
      build_provider = (\<lambda>stack. Inr ()),
      build_stack_tags = (\<lambda>stack. Inr []),
      resolve = (\<lambda>provider stack. Inr stack),
      build_parameters = (\<lambda>stack. Inr [(''Env'', PyStr ''dev'')]),
      template = (\<lambda>stack. Inr ''{}''),
      get_stack_changes = (\<lambda>provider stack t parameters tags.
        if changed then Inr [(''VpcId'', PyStr ''vpc-1'')] else Inl StackDidNotChange)\<rparr>"

section \<open>Properties of the diff\<close>

lemma set_keys: "set (keys d) = fst ` set d"
  by (simp add: keys_def)

lemma distinct_keys: "distinct (keys d)"
  by (simp add: keys_def)

lemma getitem_in: "k \<in> fst ` set d \<Longrightarrow> getitem d k = Inr (get d k)"
  by (auto simp: getitem_def get_def map_of_eq_None_iff split: option.splits)

lemma get_notin: "k \<notin> fst ` set d \<Longrightarrow> get d k = PyNone"
  by (simp add: get_def map_of_eq_None_iff [THEN iffD2])

lemma added_loop_eq:
  "set ks \<subseteq> fst ` set new_dict \<Longrightarrow> set ks \<inter> fst ` set old_dict = {} \<Longrightarrow>
   added_loop ks new_dict (c, out) = Inr (c + length ks, out @ map (entry old_dict new_dict) ks)"
proof (induction ks arbitrary: c out)
  case Nil
  then show ?case by simp
next
  case (Cons k ks)
  from Cons.prems have "getitem new_dict k = Inr (get new_dict k)" "get old_dict k = PyNone"
    by (auto intro: getitem_in get_notin)
  with Cons show ?case by (simp add: entry_def)
qed

lemma removed_loop_eq:
  "set ks \<subseteq> fst ` set old_dict \<Longrightarrow> set ks \<inter> fst ` set new_dict = {} \<Longrightarrow>
   removed_loop ks old_dict (c, out) = Inr (c + length ks, out @ map (entry old_dict new_dict) ks)"
proof (induction ks arbitrary: c out)
  case Nil
  then show ?case by simp
next
  case (Cons k ks)
  from Cons.prems have "getitem old_dict k = Inr (get old_dict k)" "get new_dict k = PyNone"
    by (auto intro: getitem_in get_notin)
  with Cons show ?case by (simp add: entry_def)
qed

lemma common_loop_eq:
  "set ks \<subseteq> fst ` set old_dict \<Longrightarrow> set ks \<subseteq> fst ` set new_dict \<Longrightarrow>
   common_loop ks old_dict new_dict (c, out) =
     Inr (c + length (filter (str_differs old_dict new_dict) ks), out @ map (entry old_dict new_dict) ks)"
proof (induction ks arbitrary: c out)
  case Nil
  then show ?case by simp
next
  case (Cons k ks)
  from Cons.prems have "getitem old_dict k = Inr (get old_dict k)" "getitem new_dict k = Inr (get new_dict k)"
    by (auto intro: getitem_in)
  with Cons show ?case by (simp add: entry_def str_differs_def)
qed

lemma key_entry: "key (entry old_dict new_dict k) = k"
  by (simp add: entry_def)

lemma insort_key_map_entry:
  "insort_key key (entry old_dict new_dict k) (map (entry old_dict new_dict) ks) =
   map (entry old_dict new_dict) (insort k ks)"
  by (induction ks) (simp_all add: key_entry)

lemma sort_key_map_entry:
  "sort_key key (map (entry old_dict new_dict) ks) = map (entry old_dict new_dict) (sort ks)"
  by (induction ks) (simp_all add: insort_key_map_entry)

lemma sort_distinct: "distinct ks \<Longrightarrow> sort ks = sorted_list_of_set (set ks)"
  by (simp add: sorted_list_of_set_sort_remdups distinct_remdups_id)

lemma diff_loops_any_order:
  assumes added: "set added = fst ` set new_dict - fst ` set old_dict" "distinct added"
    and removed: "set removed = fst ` set old_dict - fst ` set new_dict" "distinct removed"
    and common: "set common = fst ` set old_dict \<inter> fst ` set new_dict" "distinct common"
  shows "diff_loops added removed common old_dict new_dict =
     Inr (change_count old_dict new_dict, map (entry old_dict new_dict) (all_keys old_dict new_dict))"
proof -
  have sa: "set added \<subseteq> fst ` set new_dict" "set added \<inter> fst ` set old_dict = {}"
    using added by auto
  have sr: "set removed \<subseteq> fst ` set old_dict" "set removed \<inter> fst ` set new_dict = {}"
    using removed by auto
  have sc: "set common \<subseteq> fst ` set old_dict" "set common \<subseteq> fst ` set new_dict"
    using common by auto
  have a: "added_loop added new_dict (0, []) = Inr (length added, map (entry old_dict new_dict) added)"
    by (simp add: added_loop_eq [OF sa])
  have r: "removed_loop removed old_dict (length added, map (entry old_dict new_dict) added) =
      Inr (length added + length removed, map (entry old_dict new_dict) (added @ removed))"
    by (simp add: removed_loop_eq [OF sr])
  have c: "common_loop common old_dict new_dict
        (length added + length removed, map (entry old_dict new_dict) (added @ removed)) =
      Inr (length added + length removed + length (filter (str_differs old_dict new_dict) common),
           map (entry old_dict new_dict) (added @ removed @ common))"
    by (simp add: common_loop_eq [OF sc])
  have d: "distinct (added @ removed @ common)"
    using added removed common by auto
  have s: "set (added @ removed @ common) = fst ` set old_dict \<union> fst ` set new_dict"
    using added removed common by auto
  have la: "length added = card (fst ` set new_dict - fst ` set old_dict)"
    using distinct_card [of added] added by simp
  have lr: "length removed = card (fst ` set old_dict - fst ` set new_dict)"
    using distinct_card [of removed] removed by simp
  have "set (filter (str_differs old_dict new_dict) common) =
      {k \<in> fst ` set old_dict \<inter> fst ` set new_dict. str_differs old_dict new_dict k}"
    "distinct (filter (str_differs old_dict new_dict) common)"
    using common by auto
  then have lc: "length (filter (str_differs old_dict new_dict) common) =
      card {k \<in> fst ` set old_dict \<inter> fst ` set new_dict. str_differs old_dict new_dict k}"
    using distinct_card [of "filter (str_differs old_dict new_dict) common"] by simp
  have "diff_loops added removed common old_dict new_dict =
      Inr (length added + length removed + length (filter (str_differs old_dict new_dict) common),
           map (entry old_dict new_dict) (sort (added @ removed @ common)))"
    unfolding diff_loops_def
    by (simp only: a r c sum.case prod.case sort_key_map_entry)
  then show ?thesis
    by (simp only: sort_distinct [OF d] s all_keys_def change_count_def la lr lc)
qed

lemma diff_dictionaries_eq:
  "diff_dictionaries old_dict new_dict =
     Inr (change_count old_dict new_dict, map (entry old_dict new_dict) (all_keys old_dict new_dict))"
  unfolding diff_dictionaries_def Let_def
  by (rule diff_loops_any_order) (auto simp: set_keys distinct_keys)

lemma set_all_keys: "set (all_keys old_dict new_dict) = fst ` set old_dict \<union> fst ` set new_dict"
  by (simp add: all_keys_def)

lemma sorted_all_keys: "sorted (all_keys old_dict new_dict)" "distinct (all_keys old_dict new_dict)"
  by (simp_all add: all_keys_def)

lemma map_key_entry: "map key (map (entry old_dict new_dict) ks) = ks"
  by (induction ks) (simp_all add: key_entry)

lemma in_keys_iff: "k \<in> fst ` set d \<longleftrightarrow> map_of d k \<noteq> None"
  by (simp add: map_of_eq_None_iff)

lemma py_eq_None [simp]: "py_eq v PyNone \<longleftrightarrow> v = PyNone" "py_eq PyNone v \<longleftrightarrow> v = PyNone"
  by (cases v; simp)+

subsection \<open>Classification of the keys\<close>

text \<open>
  C1. A key only in new is \<open>ADDED\<close>, a key only in old is \<open>REMOVED\<close>, and a key in both is
  \<open>UNMODIFIED\<close> when its two values have equal string representations and \<open>MODIFIED\<close>
  otherwise, for all values: this fails on \<open>{"a": 1}\<close> against \<open>{"a": "1", "b": None}\<close>. The
  values of \<open>a\<close> have the same string representation and the change count of
  \<open>diff_dictionaries\<close> leaves \<open>a\<close> out, yet the entry of \<open>a\<close> is \<open>MODIFIED\<close>; \<open>b\<close> is only
  in the new dictionary and the count takes it in, yet the entry of \<open>b\<close> is \<open>UNMODIFIED\<close>.
  The count goes by the presence of the key and by \<open>str\<close>, and \<open>status\<close> by \<open>==\<close> with
  \<open>None\<close> for an absent key.
\<close>

theorem diff_dictionaries_status_disagrees:
  "diff_dictionaries [(''a'', PyInt 1)] [(''a'', PyStr ''1''), (''b'', PyNone)] =
     Inr (1, [\<lparr>key = ''a'', old_value = PyInt 1, new_value = PyStr ''1''\<rparr>,
              \<lparr>key = ''b'', old_value = PyNone, new_value = PyNone\<rparr>]) \<and>
   py_str (PyInt 1) = py_str (PyStr ''1'') \<and>
   status \<lparr>key = ''a'', old_value = PyInt 1, new_value = PyStr ''1''\<rparr> = MODIFIED \<and>
   ''b'' \<notin> fst ` set [(''a'', PyInt 1)] \<and>
   status \<lparr>key = ''b'', old_value = PyNone, new_value = PyNone\<rparr> = UNMODIFIED"
  by (simp add: diff_dictionaries_def diff_loops_def keys_def getitem_def str_of_nat.simps
      digit_char_def status_def)

lemma change_count_filter:
  "change_count old_dict new_dict =
     length (filter (\<lambda>k. k \<notin> fst ` set old_dict \<or> k \<notin> fst ` set new_dict \<or>
                          str_differs old_dict new_dict k) (all_keys old_dict new_dict))"
proof -
  let ?A = "fst ` set old_dict" and ?B = "fst ` set new_dict"
  let ?C = "{k \<in> ?A \<inter> ?B. str_differs old_dict new_dict k}"
  let ?P = "\<lambda>k. k \<notin> ?A \<or> k \<notin> ?B \<or> str_differs old_dict new_dict k"
  have fin: "finite (?B - ?A)" "finite (?A - ?B)" "finite ?C"
    by simp_all
  have "set (filter ?P (all_keys old_dict new_dict)) = (?B - ?A) \<union> ((?A - ?B) \<union> ?C)"
    by (auto simp: set_all_keys)
  moreover have "distinct (filter ?P (all_keys old_dict new_dict))"
    by (simp add: sorted_all_keys)
  ultimately have "length (filter ?P (all_keys old_dict new_dict)) = card ((?B - ?A) \<union> ((?A - ?B) \<union> ?C))"
    using distinct_card [of "filter ?P (all_keys old_dict new_dict)"] by simp
  also have "\<dots> = card (?B - ?A) + card ((?A - ?B) \<union> ?C)"
    using fin by (intro card_Un_disjoint) auto
  also have "card ((?A - ?B) \<union> ?C) = card (?A - ?B) + card ?C"
    using fin by (intro card_Un_disjoint) auto
  finally show ?thesis
    by (simp add: change_count_def)
qed

lemma length_filter_entries:
  "length (filter Q (map (entry old_dict new_dict) ks)) =
   length (filter (\<lambda>k. Q (entry old_dict new_dict k)) ks)"
  by (induction ks) simp_all

subsection \<open>The change count and the order of the entries\<close>

text \<open>
  What \<open>diff_dictionaries\<close> returns: a list with exactly one entry per key present in
  either dictionary, in ascending order of the keys, and the number of those entries
  whose key is missing from one of the two dictionaries or whose two values have
  different string representations.
\<close>

lemma diff_dictionaries_count_and_order:
  "\<exists>changes output. diff_dictionaries old_dict new_dict = Inr (changes, output) \<and>
     changes = length (filter (\<lambda>dv. key dv \<notin> fst ` set old_dict \<or> key dv \<notin> fst ` set new_dict \<or>
                                 py_str (old_value dv) \<noteq> py_str (new_value dv)) output) \<and>
     sorted (map key output) \<and> distinct (map key output) \<and>
     set (map key output) = fst ` set old_dict \<union> fst ` set new_dict"
proof -
  let ?out = "map (entry old_dict new_dict) (all_keys old_dict new_dict)"
  let ?Q = "\<lambda>dv. key dv \<notin> fst ` set old_dict \<or> key dv \<notin> fst ` set new_dict \<or>
                                 py_str (old_value dv) \<noteq> py_str (new_value dv)"
  have eq: "(\<lambda>k. ?Q (entry old_dict new_dict k)) =
      (\<lambda>k. k \<notin> fst ` set old_dict \<or> k \<notin> fst ` set new_dict \<or> str_differs old_dict new_dict k)"
    by (rule ext) (simp add: entry_def str_differs_def)
  have 1: "change_count old_dict new_dict = length (filter ?Q ?out)"
    unfolding length_filter_entries eq by (rule change_count_filter)
  have 2: "map key ?out = all_keys old_dict new_dict"
    by (rule map_key_entry)
  have 3: "sorted (map key ?out)" "distinct (map key ?out)"
    "set (map key ?out) = fst ` set old_dict \<union> fst ` set new_dict"
    unfolding 2 by (rule sorted_all_keys set_all_keys)+
  show ?thesis
    using diff_dictionaries_eq [of old_dict new_dict] 1 3 by blast
qed

text \<open>
  C2. The count is the number of the returned entries whose status is other than
  \<open>UNMODIFIED\<close>: this fails on \<open>{"a": 1}\<close> against \<open>{"a": "1"}\<close>, where the count is 0 and the
  one entry returned is \<open>MODIFIED\<close>. The count compares the string representations of
  the two values, and \<open>status\<close> the values.
\<close>

theorem diff_dictionaries_count_disagrees:
  "diff_dictionaries [(''a'', PyInt 1)] [(''a'', PyStr ''1'')] =
     Inr (0, [\<lparr>key = ''a'', old_value = PyInt 1, new_value = PyStr ''1''\<rparr>]) \<and>
   status \<lparr>key = ''a'', old_value = PyInt 1, new_value = PyStr ''1''\<rparr> = MODIFIED \<and>
   length (filter (\<lambda>dv. status dv \<noteq> UNMODIFIED)
     [\<lparr>key = ''a'', old_value = PyInt 1, new_value = PyStr ''1''\<rparr>]) = 1"
  by (simp add: diff_dictionaries_def diff_loops_def keys_def getitem_def str_of_nat.simps
      digit_char_def status_def)

subsection \<open>The diff of the parameters\<close>







section \<open>Properties of resolving a variable\<close>

text \<open>
  C3 (as amended). For a variable whose declared type is neither a provider-parameter type
  nor a typed-resource type, \<open>resolve_variable\<close> succeeds only when the value, as the
  validator returned it, is an instance of the declared type, that is when its class is
  the declared type or a subclass of it; the result is then that value. When the value is
  not an instance, a \<open>ValueError\<close> is raised that names the variable, the expected type
  and the actual type. A value of a strict subtype is accepted: \<open>True\<close> for the declared
  type \<open>int\<close>.
\<close>

theorem resolve_variable_checks_instance:
  assumes "def_type vdef = Some (PyType t)"
  shows "(\<forall>r. resolve_variable var_name vdef provided_variable blueprint_name = Inr r \<longrightarrow>
            (\<exists>v. r = Plain v \<and> isinstance v t)) \<and>
         (\<forall>v0 v. provided_or_default var_name vdef provided_variable blueprint_name = Inr v0 \<longrightarrow>
            apply_validator var_name vdef v0 = Inr v \<longrightarrow>
            resolve_variable var_name vdef provided_variable blueprint_name =
              (if \<not> isinstance v t
               then Inl (ValueError (MustBeOfType var_name t (type_of v)))
               else if validate_allowed_values (def_allowed_values vdef) (Plain v)
               then Inr (Plain v)
               else Inl (ValueError (InvalidValuePassed var_name blueprint_name (Plain v)
                      (def_allowed_values vdef)))))"
  using assms
  by (auto simp: resolve_variable_def validate_variable_type_def Let_def
      split: sum.splits if_splits)

theorem resolve_variable_checks_instance_witness:
  "resolve_variable ''Count''
     \<lparr>def_type = Some (PyType TInt), def_default = None, def_validator = None,
      def_allowed_values = None\<rparr>
     (Some \<lparr>variable_name = ''Count'', resolved = True, variable_value = PyBool True\<rparr>) ''vpc'' =
     Inr (Plain (PyBool True)) \<and>
   isinstance (PyBool True) TInt \<and>
   resolve_variable ''Count''
     \<lparr>def_type = Some (PyType TInt), def_default = None, def_validator = None,
      def_allowed_values = None\<rparr>
     (Some \<lparr>variable_name = ''Count'', resolved = True, variable_value = PyStr ''3''\<rparr>) ''vpc'' =
     Inl (ValueError (MustBeOfType ''Count'' TInt TStr))"
proof -
  let ?d = "\<lparr>def_type = Some (PyType TInt), def_default = None, def_validator = None,
      def_allowed_values = None\<rparr>"
  let ?p = "\<lambda>v. Some \<lparr>variable_name = ''Count'', resolved = True, variable_value = v\<rparr>"
  have t: "def_type ?d = Some (PyType TInt)" by simp
  have p: "provided_or_default ''Count'' ?d (?p v) ''vpc'' = Inr v" for v
    by (simp add: provided_or_default_def)
  have a: "apply_validator ''Count'' ?d v = Inr v" for v
    by (simp add: apply_validator_def)
  have i: "isinstance (PyBool True) TInt" "\<not> isinstance (PyStr ''3'') TInt"
    by (simp_all add: isinstance_def issubclass_def)
  have al: "validate_allowed_values (def_allowed_values ?d) w" for w
    by (simp add: validate_allowed_values_def)
  from resolve_variable_checks_instance [OF t, of "''Count''" "?p (PyBool True)" "''vpc''"]
    resolve_variable_checks_instance [OF t, of "''Count''" "?p (PyStr ''3'')" "''vpc''"]
  show ?thesis
    using p a i al by simp
qed

text \<open>
  The claim as first stated asks for the exact type: \<open>True\<close> is a \<open>bool\<close>, not an \<open>int\<close>,
  and resolves against the declared type \<open>int\<close>.
\<close>

theorem resolve_variable_type_counterexample:
  "resolve_variable ''Count''
     \<lparr>def_type = Some (PyType TInt), def_default = None, def_validator = None,
      def_allowed_values = None\<rparr>
     (Some \<lparr>variable_name = ''Count'', resolved = True, variable_value = PyBool True\<rparr>) ''vpc'' =
     Inr (Plain (PyBool True)) \<and>
   type_of (PyBool True) = TBool \<and> TBool \<noteq> TInt"
  by (simp add: resolve_variable_def provided_or_default_def apply_validator_def
      validate_variable_type_def validate_allowed_values_def isinstance_def issubclass_def)

text \<open>
  C4 (as amended). For a variable definition that declares a type: when no value is
  provided and there is no default, \<open>resolve_variable\<close> raises \<open>MissingVariable\<close>; when no
  value is provided and there is a default, the default is resolved as a provided,
  resolved value would be: it goes through the validator, the type check and the check
  of the allowed values, and what these return is the result. The result is the default
  itself when the validator returns its argument, the declared type is an ordinary class
  of which the default is an instance, and the default is allowed.
\<close>

theorem resolve_variable_default:
  assumes "def_type vdef = Some vtype"
  shows "(def_default vdef = None \<longrightarrow>
            resolve_variable var_name vdef None blueprint_name =
              Inl (MissingVariable blueprint_name var_name)) \<and>
         (\<forall>d. def_default vdef = Some d \<longrightarrow>
            resolve_variable var_name vdef None blueprint_name =
              resolve_variable var_name vdef
                (Some \<lparr>variable_name = var_name, resolved = True, variable_value = d\<rparr>)
                blueprint_name) \<and>
         (\<forall>d t. def_default vdef = Some d \<longrightarrow> vtype = PyType t \<longrightarrow>
            apply_validator var_name vdef d = Inr d \<longrightarrow> isinstance d t \<longrightarrow>
            validate_allowed_values (def_allowed_values vdef) (Plain d) \<longrightarrow>
            resolve_variable var_name vdef None blueprint_name = Inr (Plain d))"
  using assms
  by (auto simp: resolve_variable_def provided_or_default_def validate_variable_type_def)

theorem resolve_variable_default_witness:
  "resolve_variable ''Count''
     \<lparr>def_type = Some (PyType TInt), def_default = None, def_validator = None,
      def_allowed_values = None\<rparr> None ''vpc'' = Inl (MissingVariable ''vpc'' ''Count'') \<and>
   resolve_variable ''Count''
     \<lparr>def_type = Some (PyType TInt), def_default = Some (PyInt 1), def_validator = None,
      def_allowed_values = None\<rparr> None ''vpc'' = Inr (Plain (PyInt 1))"
proof -
  let ?d = "\<lambda>d. \<lparr>def_type = Some (PyType TInt), def_default = d, def_validator = None,
      def_allowed_values = None\<rparr>"
  have a: "apply_validator ''Count'' (?d d) v = Inr v" for d v
    by (simp add: apply_validator_def)
  have i: "isinstance (PyInt 1) TInt"
    by (simp add: isinstance_def issubclass_def)
  have al: "validate_allowed_values (def_allowed_values (?d d)) w" for w d
    by (simp add: validate_allowed_values_def)
  have t: "def_type (?d d) = Some (PyType TInt)" for d
    by simp
  have none: "def_default (?d None) = None" and some: "def_default (?d (Some (PyInt 1))) = Some (PyInt 1)"
    by simp_all
  have "resolve_variable ''Count'' (?d None) None ''vpc'' = Inl (MissingVariable ''vpc'' ''Count'')"
    using resolve_variable_default
      [where vdef = "?d None" and var_name = "''Count''" and blueprint_name = "''vpc''", OF t,
        THEN conjunct1, rule_format, OF none] .
  moreover have "resolve_variable ''Count'' (?d (Some (PyInt 1))) None ''vpc'' = Inr (Plain (PyInt 1))"
    using resolve_variable_default
      [where vdef = "?d (Some (PyInt 1))" and var_name = "''Count''" and blueprint_name = "''vpc''",
        OF t, THEN conjunct2, THEN conjunct2, rule_format, OF some refl a i al] .
  ultimately show ?thesis ..
qed

text \<open>
  The claim as first stated fails where no type is declared (\<open>VariableTypeRequired\<close> is
  raised before the default is looked for), where the validator returns another value
  than its argument, and where the declared type is a provider-parameter type, which
  wraps the default.
\<close>

theorem resolve_variable_default_counterexample:
  "resolve_variable ''Count''
     \<lparr>def_type = None, def_default = None, def_validator = None, def_allowed_values = None\<rparr>
     None ''vpc'' = Inl (VariableTypeRequired ''vpc'' ''Count'') \<and>
   resolve_variable ''Count''
     \<lparr>def_type = Some (PyType TInt), def_default = Some (PyInt 1),
      def_validator = Some (''double'', double_validator), def_allowed_values = None\<rparr>
     None ''vpc'' = Inr (Plain (PyInt 2)) \<and>
   resolve_variable ''Count''
     \<lparr>def_type = Some (CFNType ''Number''), def_default = Some (PyInt 1),
      def_validator = None, def_allowed_values = None\<rparr>
     None ''vpc'' = Inr (CFNParameter ''Count'' (PyStr ''1''))"
  by (simp add: resolve_variable_def provided_or_default_def apply_validator_def
      validate_variable_type_def validate_allowed_values_def isinstance_def issubclass_def
      double_validator_def CFNParameter_init_def str_of_nat.simps digit_char_def)

text \<open>
  C5. For a variable definition with a non-empty list of allowed values, and a value that
  passes everything before the membership check (it resolves under the same definition
  without the list): \<open>resolve_variable\<close> returns the value when it is a \<open>CFNParameter\<close> or
  a member of the list, and raises \<open>ValueError\<close> otherwise. With the list
  \<open>["a", "b"]\<close>, \<open>"c"\<close> fails and \<open>"a"\<close> succeeds.
\<close>

theorem resolve_variable_allowed_values:
  assumes "def_allowed_values vdef = Some allowed" and "allowed \<noteq> []"
    and "resolve_variable var_name (vdef\<lparr>def_allowed_values := None\<rparr>) provided_variable
           blueprint_name = Inr v"
  shows "resolve_variable var_name vdef provided_variable blueprint_name =
           (if is_CFNParameter v \<or> py_in v allowed then Inr v
            else Inl (ValueError (InvalidValuePassed var_name blueprint_name v (Some allowed))))"
  using assms
  by (auto simp: resolve_variable_def provided_or_default_def apply_validator_def
      validate_allowed_values_def Let_def split: option.splits sum.splits if_splits prod.splits)

theorem resolve_variable_allowed_values_witness:
  "resolve_variable ''Env''
     \<lparr>def_type = Some (PyType TStr), def_default = None, def_validator = None,
      def_allowed_values = Some [PyStr ''a'', PyStr ''b'']\<rparr>
     (Some \<lparr>variable_name = ''Env'', resolved = True, variable_value = PyStr ''c''\<rparr>) ''vpc'' =
     Inl (ValueError (InvalidValuePassed ''Env'' ''vpc'' (Plain (PyStr ''c''))
            (Some [PyStr ''a'', PyStr ''b'']))) \<and>
   resolve_variable ''Env''
     \<lparr>def_type = Some (PyType TStr), def_default = None, def_validator = None,
      def_allowed_values = Some [PyStr ''a'', PyStr ''b'']\<rparr>
     (Some \<lparr>variable_name = ''Env'', resolved = True, variable_value = PyStr ''a''\<rparr>) ''vpc'' =
     Inr (Plain (PyStr ''a'')) \<and>
   resolve_variable ''Env''
     \<lparr>def_type = Some (CFNType ''String''), def_default = None, def_validator = None,
      def_allowed_values = Some [PyStr ''a'', PyStr ''b'']\<rparr>
     (Some \<lparr>variable_name = ''Env'', resolved = True, variable_value = PyStr ''c''\<rparr>) ''vpc'' =
     Inr (CFNParameter ''Env'' (PyStr ''c''))"
proof -
  let ?d = "\<lambda>t. \<lparr>def_type = Some t, def_default = None, def_validator = None,
      def_allowed_values = Some [PyStr ''a'', PyStr ''b'']\<rparr>"
  let ?p = "\<lambda>v. Some \<lparr>variable_name = ''Env'', resolved = True, variable_value = v\<rparr>"
  have al: "def_allowed_values (?d t) = Some [PyStr ''a'', PyStr ''b'']" for t by simp
  have ne: "[PyStr ''a'', PyStr ''b''] \<noteq> []" by simp
  have plain: "resolve_variable ''Env'' ((?d (PyType TStr))\<lparr>def_allowed_values := None\<rparr>)
      (?p (PyStr s)) ''vpc'' = Inr (Plain (PyStr s))" for s
    by (simp add: resolve_variable_def provided_or_default_def apply_validator_def
        validate_variable_type_def validate_allowed_values_def isinstance_def issubclass_def)
  have cfn: "resolve_variable ''Env'' ((?d (CFNType ''String''))\<lparr>def_allowed_values := None\<rparr>)
      (?p (PyStr ''c'')) ''vpc'' = Inr (CFNParameter ''Env'' (PyStr ''c''))"
    by (simp add: resolve_variable_def provided_or_default_def apply_validator_def
        validate_variable_type_def validate_allowed_values_def isinstance_def issubclass_def
        CFNParameter_init_def)
  from resolve_variable_allowed_values [OF al ne plain [of "''c''"]]
    resolve_variable_allowed_values [OF al ne plain [of "''a''"]]
    resolve_variable_allowed_values [OF al ne cfn]
  show ?thesis by simp
qed

section \<open>Properties of the user data\<close>

lemma substitute_literal:
  "CHR ''$'' \<notin> set s \<Longrightarrow>
   substitute m (s @ rest) = (case substitute m rest of Inl e \<Rightarrow> Inl e | Inr r \<Rightarrow> Inr (s @ r))"
  by (induction s) (auto split: sum.splits)

lemma idchar_brace [simp]: "\<not> idchar (CHR ''}'')" "\<not> idstart (CHR ''{'')" "\<not> idstart (CHR ''$'')"
  by (simp_all add: idchar_def idstart_def)

lemma idstart_idchar: "idstart c \<Longrightarrow> idchar c"
  by (simp add: idchar_def)

lemma is_identifier_all: "is_identifier n \<Longrightarrow> \<forall>c\<in>set n. idchar c"
  by (auto simp: is_identifier_def list_all_iff idstart_idchar split: list.splits)

lemma match_braced:
  assumes "is_identifier n"
  shows "match_placeholder (CHR ''{'' # n @ CHR ''}'' # rest) = (Braced n, rest)"
proof -
  from assms obtain c cs where n: "n = c # cs" and c: "idstart c"
    by (auto simp: is_identifier_def split: list.splits)
  from is_identifier_all [OF assms] have all: "idchar c" "\<And>x. x \<in> set cs \<Longrightarrow> idchar x"
    by (simp_all add: n)
  show ?thesis
    unfolding n by (simp add: c all)
qed

lemma substitute_placeholder:
  assumes "is_identifier n"
  shows "substitute m (''${'' @ n @ ''}'' @ rest) =
     (case getitem m n of
        Inl e \<Rightarrow> Inl e
      | Inr v \<Rightarrow> (case substitute m rest of Inl e \<Rightarrow> Inl e | Inr r \<Rightarrow> Inr (py_str v @ r)))"
  using match_braced [OF assms, of rest] by simp


lemma getitem_variable_values:
  "getitem (variable_values variables) n =
     (case map_of variables n of
        None \<Rightarrow> Inl (KeyError n)
      | Some v \<Rightarrow> Inr (to_parameter_value v))"
  by (simp add: getitem_def variable_values_def map_of_map split: option.splits)

lemma py_str_to_parameter_value:
  "py_str (to_parameter_value v) =
     (case v of Plain x \<Rightarrow> py_str x | CFNParameter parameter_name held \<Rightarrow> py_str held)"
  by (cases v) simp_all

lemma takeWhile_not_brace:
  assumes "\<forall>c\<in>set n. idchar c"
  shows "takeWhile (\<lambda>x. x \<noteq> CHR ''}'') (n @ CHR ''}'' # fs) = n"
proof -
  have "\<forall>c\<in>set n. c \<noteq> CHR ''}''"
    using assms idchar_brace(1) by blast
  then show ?thesis
    by (simp add: takeWhile_append2)
qed

lemma invalid_placeholder_no_match:
  assumes "invalid_placeholder rest"
  shows "fst (match_placeholder rest) = Invalid"
proof (cases rest)
  case Nil
  then show ?thesis by simp
next
  case (Cons c t)
  with assms have c: "c \<noteq> CHR ''$''" "\<not> idstart c"
    by (simp_all add: invalid_placeholder_def)
  show ?thesis
  proof (cases "c = CHR ''{''")
    case False
    with c Cons show ?thesis by simp
  next
    case True
    with assms Cons
    have no: "\<not> (CHR ''}'' \<in> set t \<and> is_identifier (takeWhile (\<lambda>x. x \<noteq> CHR ''}'') t))"
      by (simp add: invalid_placeholder_def)
    show ?thesis
    proof (cases t)
      case Nil
      with True Cons show ?thesis by simp
    next
      case (Cons e es)
      show ?thesis
      proof (cases "idstart e")
        case False
        with True Cons \<open>rest = c # t\<close> show ?thesis by simp
      next
        case e: True
        show ?thesis
        proof (cases "dropWhile idchar t")
          case Nil
          with True e Cons \<open>rest = c # t\<close> show ?thesis
            by (simp del: dropWhile.simps dropWhile_eq_Nil_conv)
        next
          case (Cons f fs)
          have "f \<noteq> CHR ''}''"
          proof
            assume f: "f = CHR ''}''"
            let ?n = "takeWhile idchar t"
            have t: "t = ?n @ CHR ''}'' # fs"
              using takeWhile_dropWhile_id [of idchar t] Cons f by simp
            have all: "\<forall>x\<in>set ?n. idchar x"
              by (auto dest: set_takeWhileD)
            have "?n = e # takeWhile idchar es"
              using \<open>t = e # es\<close> e by (simp add: idstart_idchar)
            then have "is_identifier ?n"
              using e all by (simp add: is_identifier_def list_all_iff)
            moreover have "takeWhile (\<lambda>x. x \<noteq> CHR ''}'') t = ?n"
              using takeWhile_not_brace [OF all, of fs] t by simp
            moreover have "CHR ''}'' \<in> set t"
              using t by (metis in_set_conv_decomp)
            ultimately show False
              using no by simp
          qed
          with True e Cons \<open>t = e # es\<close> \<open>rest = c # t\<close> show ?thesis
            by (simp del: dropWhile.simps)
        qed
      qed
    qed
  qed
qed

lemma substitute_pieces:
  assumes "\<forall>p\<in>set ps. well_formed p \<and> defined_in variables p"
  shows "substitute (variable_values variables) (concat (map render ps) @ rest) =
     (case substitute (variable_values variables) rest of
        Inl e \<Rightarrow> Inl e
      | Inr r \<Rightarrow> Inr (concat (map (expand variables) ps) @ r))"
  using assms
proof (induction ps)
  case Nil
  show ?case by (simp split: sum.splits)
next
  case (Cons p ps)
  then have IH: "substitute (variable_values variables) (concat (map render ps) @ rest) =
     (case substitute (variable_values variables) rest of
        Inl e \<Rightarrow> Inl e
      | Inr r \<Rightarrow> Inr (concat (map (expand variables) ps) @ r))"
    by simp
  show ?case
  proof (cases p)
    case (Literal s)
    with Cons.prems have "CHR ''$'' \<notin> set s" by simp
    then show ?thesis
      using substitute_literal [of s "variable_values variables" "concat (map render ps) @ rest"]
      by (simp add: Literal IH split: sum.splits)
  next
    case (Placeholder n)
    with Cons.prems have n: "is_identifier n" "n \<in> fst ` set variables" by simp_all
    from n(2) obtain v where v: "map_of variables n = Some v"
      by (auto simp: in_keys_iff)
    show ?thesis
      using substitute_placeholder [OF n(1), of "variable_values variables" "concat (map render ps) @ rest"]
      by (simp add: Placeholder IH getitem_variable_values v py_str_to_parameter_value
          split: sum.splits)
  qed
qed

text \<open>
  C7. In a text made of literals and placeholders \<open>${name}\<close> whose names are all among the
  variables, \<open>parse_user_data\<close> replaces every placeholder by the string of the variable of
  that name, for a \<open>CFNParameter\<close> the string of the value it holds, and returns the text.
  After such a text, a placeholder whose name is not among the variables raises
  \<open>MissingVariable\<close> with that name, and a \<open>$\<close> followed by an invalid placeholder raises
  \<open>InvalidUserdataPlaceholder\<close>, whatever comes after. \<open>"open file ${file}"\<close> with \<open>file\<close>
  set to \<open>"test.txt"\<close> gives \<open>"open file test.txt"\<close>.
\<close>

theorem parse_user_data_substitutes:
  assumes "\<forall>p\<in>set ps. well_formed p \<and> defined_in variables p"
  shows "parse_user_data variables (concat (map render ps)) blueprint_name =
           Inr (concat (map (expand variables) ps)) \<and>
         (\<forall>n rest. is_identifier n \<and> n \<notin> fst ` set variables \<longrightarrow>
            parse_user_data variables (concat (map render ps) @ render (Placeholder n) @ rest)
              blueprint_name = Inl (MissingVariable blueprint_name n)) \<and>
         (\<forall>rest. invalid_placeholder rest \<longrightarrow>
            parse_user_data variables (concat (map render ps) @ CHR ''$'' # rest)
              blueprint_name = Inl (InvalidUserdataPlaceholder blueprint_name))"
proof (intro conjI allI impI)
  show "parse_user_data variables (concat (map render ps)) blueprint_name =
           Inr (concat (map (expand variables) ps))"
    using substitute_pieces [OF assms, of "[]"] by (simp add: parse_user_data_def)
next
  fix n rest
  assume n: "is_identifier n \<and> n \<notin> fst ` set variables"
  then have "map_of variables n = None"
    by (simp add: in_keys_iff)
  then have "substitute (variable_values variables) (render (Placeholder n) @ rest) = Inl (KeyError n)"
    using substitute_placeholder [of n "variable_values variables" rest] n
    by (simp add: getitem_variable_values)
  then show "parse_user_data variables (concat (map render ps) @ render (Placeholder n) @ rest)
              blueprint_name = Inl (MissingVariable blueprint_name n)"
    using substitute_pieces [OF assms, of "render (Placeholder n) @ rest"]
    by (simp add: parse_user_data_def)
next
  fix rest
  assume "invalid_placeholder rest"
  then have "fst (match_placeholder rest) = Invalid"
    by (rule invalid_placeholder_no_match)
  then have "substitute (variable_values variables) (CHR ''$'' # rest) = Inl (ValueError InvalidPlaceholder)"
    by (cases "match_placeholder rest") simp
  then show "parse_user_data variables (concat (map render ps) @ CHR ''$'' # rest)
              blueprint_name = Inl (InvalidUserdataPlaceholder blueprint_name)"
    using substitute_pieces [OF assms, of "CHR ''$'' # rest"]
    by (simp add: parse_user_data_def)
qed

theorem parse_user_data_substitutes_witness:
  "parse_user_data [(''file'', Plain (PyStr ''test.txt''))] ''open file ${file}'' ''bastion'' =
     Inr ''open file test.txt'' \<and>
   parse_user_data
     [(''file'', Plain (PyStr ''test.txt'')), (''count'', CFNParameter ''Count'' (PyStr ''5''))]
     ''open ${file} count ${count}'' ''bastion'' = Inr ''open test.txt count 5'' \<and>
   parse_user_data [(''file'', Plain (PyStr ''test.txt''))] ''open file ${name} now'' ''bastion'' =
     Inl (MissingVariable ''bastion'' ''name'') \<and>
   parse_user_data [(''file'', Plain (PyStr ''test.txt''))] ''open file ${100}'' ''bastion'' =
     Inl (InvalidUserdataPlaceholder ''bastion'') \<and>
   parse_user_data [(''file'', Plain (PyStr ''test.txt''))] ''open file $'' ''bastion'' =
     Inl (InvalidUserdataPlaceholder ''bastion'') \<and>
   parse_user_data [(''file'', Plain (PyStr ''test.txt''))] ''open file $ file'' ''bastion'' =
     Inl (InvalidUserdataPlaceholder ''bastion'') \<and>
   parse_user_data [(''file'', Plain (PyStr ''test.txt''))] ''open file ${file'' ''bastion'' =
     Inl (InvalidUserdataPlaceholder ''bastion'') \<and>
   parse_user_data [(''file'', Plain (PyStr ''test.txt''))] ''open file ${fi-le}'' ''bastion'' =
     Inl (InvalidUserdataPlaceholder ''bastion'')"
proof -
  let ?vars = "[(''file'', Plain (PyStr ''test.txt''))]"
  let ?vars2 = "[(''file'', Plain (PyStr ''test.txt'')),
      (''count'', CFNParameter ''Count'' (PyStr ''5''))]"
  let ?ps = "[Literal ''open file '', Placeholder ''file'']"
  let ?ps2 = "[Literal ''open '', Placeholder ''file'', Literal '' count '', Placeholder ''count'']"
  have wf: "\<forall>p\<in>set ?ps. well_formed p \<and> defined_in ?vars p"
    by (simp add: is_identifier_def idstart_def idchar_def)
  have wf2: "\<forall>p\<in>set ?ps2. well_formed p \<and> defined_in ?vars2 p"
    by (simp add: is_identifier_def idstart_def idchar_def)
  have wf1: "\<forall>p\<in>set [Literal ''open file '']. well_formed p \<and> defined_in ?vars p"
    by simp
  have n: "is_identifier ''name'' \<and> ''name'' \<notin> fst ` set ?vars"
    by (simp add: is_identifier_def idstart_def idchar_def)
  have i: "invalid_placeholder ''{100}''" "invalid_placeholder []"
    "invalid_placeholder '' file''" "invalid_placeholder ''{file''"
    "invalid_placeholder ''{fi-le}''"
    by (simp_all add: invalid_placeholder_def is_identifier_def idstart_def idchar_def)
  note inv = parse_user_data_substitutes [OF wf1, of "''bastion''", THEN conjunct2,
      THEN conjunct2, rule_format]
  from parse_user_data_substitutes [OF wf, of "''bastion''", THEN conjunct1]
    parse_user_data_substitutes [OF wf2, of "''bastion''", THEN conjunct1]
    parse_user_data_substitutes [OF wf1, of "''bastion''", THEN conjunct2, THEN conjunct1,
      rule_format, OF n, of "'' now''"]
    inv [OF i(1)] inv [OF i(2)] inv [OF i(3)] inv [OF i(4)] inv [OF i(5)]
  show ?thesis by simp
qed

section \<open>Properties of the hooks\<close>

lemma run_hooks_append:
  "run_hooks provider load (pre @ post) st =
     (case run_hooks provider load pre st of
        (None, st') \<Rightarrow> run_hooks provider load post st'
      | (Some e, st') \<Rightarrow> (Some e, st'))"
  by (induction pre arbitrary: st) (auto split: prod.splits option.splits)

lemma handle_hooks_at:
  assumes "run_hooks provider load pre (logged INFO (ExecutingHooks stage (map path (pre @ hook # post))) st) = (None, st1)"
  shows "handle_hooks stage (pre @ hook # post) provider load st =
     (case hook_step provider load hook st1 of
        (None, st') \<Rightarrow> run_hooks provider load post st'
      | (Some e, st') \<Rightarrow> (Some e, st'))"
  using assms by (simp add: handle_hooks_def run_hooks_append)

lemma logged_context:
  "logged l m (st1\<lparr>run_context := c\<rparr>) = \<lparr>run_context = c, log = log st1 @ [(l, m)]\<rparr>"
  by (cases st1) (simp add: logged_def)

lemma example_loads:
  "example_load ''hooks.falsy'' = Inr (\<lambda>provider c kwargs. (Inr (Value (PyInt 0)), c))"
  "example_load ''hooks.empty'' = Inr (\<lambda>provider c kwargs. (Inr (Mapping []), c))"
  "example_load ''hooks.raises'' = Inr (\<lambda>provider c kwargs. (Inl (RuntimeError ''boom''), c))"
  "example_load ''hooks.exits'' = Inr (\<lambda>provider c kwargs. (Inl (SystemExit 2), c))"
  "example_load ''hooks.data'' = Inr (\<lambda>provider c kwargs. (Inr (Mapping [(''id'', PyInt 7)]), c))"
  by (simp_all add: example_load_def)


lemma example_hook_fields [simp]:
  "path (example_hook p k req) = p" "enabled (example_hook p k req)"
  "required (example_hook p k req) = req" "args (example_hook p k req) = None"
  "data_key (example_hook p k req) = Some k"
  by (simp_all add: example_hook_def)

lemma run_data_hook:
  "run_hooks () example_load [example_hook ''hooks.data'' ''out'' True] s =
     (None, (logged DEBUG (AddingResult ''hooks.data'' ''out'') s)
        \<lparr>run_context := set_hook_data ''out'' (Mapping [(''id'', PyInt 7)]) (run_context s)\<rparr>)"
  by (simp add: hook_step_def example_loads)

text \<open>
  C6 (as amended). Take a hook of the list that is enabled and whose handler loads, the
  hooks before it having let the run go on. If the handler returns a falsy result, a
  required hook ends the run with \<open>sys.exit(1)\<close>, an error being logged, and an optional
  one logs a warning, after which the remaining hooks are run. If the handler raises an
  exception that derives from \<open>Exception\<close>, the exception is logged; a required hook raises
  it again, which ends the run, and an optional one goes on to the remaining hooks. An
  exception that does not derive from \<open>Exception\<close> (\<open>SystemExit\<close>, \<open>KeyboardInterrupt\<close>)
  leaves \<open>handle_hooks\<close> whether or not the hook is required.
\<close>

theorem handle_hooks_failure_policy:
  assumes "run_hooks provider load pre
             (logged INFO (ExecutingHooks stage (map path (pre @ hook # post))) st) = (None, st1)"
    and "enabled hook"
    and "load (path hook) = Inr hook_method"
    and "hook_method provider (run_context st1) (case args hook of None \<Rightarrow> [] | Some a \<Rightarrow> a) =
           (outcome, c)"
  shows "(\<forall>result. outcome = Inr result \<and> \<not> result_truthy result \<longrightarrow>
            handle_hooks stage (pre @ hook # post) provider load st =
              (if required hook
               then (Some (SystemExit 1),
                     logged ERROR (RequiredHookFailed (path hook) result) (st1\<lparr>run_context := c\<rparr>))
               else run_hooks provider load post
                      (logged WARNING (NonRequiredHookFailed (path hook) result)
                         (st1\<lparr>run_context := c\<rparr>)))) \<and>
         (\<forall>e. outcome = Inl e \<and> is_Exception e \<longrightarrow>
            handle_hooks stage (pre @ hook # post) provider load st =
              (if required hook
               then (Some e, logged EXCEPTION (MethodThrew (path hook)) (st1\<lparr>run_context := c\<rparr>))
               else run_hooks provider load post
                      (logged EXCEPTION (MethodThrew (path hook)) (st1\<lparr>run_context := c\<rparr>)))) \<and>
         (\<forall>e. outcome = Inl e \<and> \<not> is_Exception e \<longrightarrow>
            handle_hooks stage (pre @ hook # post) provider load st =
              (Some e, st1\<lparr>run_context := c\<rparr>))"
  using assms(2-4) by (simp add: handle_hooks_at [OF assms(1)] hook_step_def)

theorem handle_hooks_failure_policy_witness:
  "handle_hooks ''pre_build''
     [example_hook ''hooks.falsy'' ''a'' True, example_hook ''hooks.data'' ''out'' True]
     () example_load start =
     (Some (SystemExit 1),
      \<lparr>run_context = \<lparr>hook_data = []\<rparr>,
       log = [(INFO, ExecutingHooks ''pre_build'' [''hooks.falsy'', ''hooks.data'']),
              (ERROR, RequiredHookFailed ''hooks.falsy'' (Value (PyInt 0)))]\<rparr>) \<and>
   handle_hooks ''pre_build''
     [example_hook ''hooks.falsy'' ''a'' False, example_hook ''hooks.data'' ''out'' True]
     () example_load start =
     (None,
      \<lparr>run_context = \<lparr>hook_data = [(''out'', Mapping [(''id'', PyInt 7)])]\<rparr>,
       log = [(INFO, ExecutingHooks ''pre_build'' [''hooks.falsy'', ''hooks.data'']),
              (WARNING, NonRequiredHookFailed ''hooks.falsy'' (Value (PyInt 0))),
              (DEBUG, AddingResult ''hooks.data'' ''out'')]\<rparr>) \<and>
   handle_hooks ''pre_build''
     [example_hook ''hooks.raises'' ''a'' True, example_hook ''hooks.data'' ''out'' True]
     () example_load start =
     (Some (RuntimeError ''boom''),
      \<lparr>run_context = \<lparr>hook_data = []\<rparr>,
       log = [(INFO, ExecutingHooks ''pre_build'' [''hooks.raises'', ''hooks.data'']),
              (EXCEPTION, MethodThrew ''hooks.raises'')]\<rparr>) \<and>
   handle_hooks ''pre_build''
     [example_hook ''hooks.raises'' ''a'' False, example_hook ''hooks.data'' ''out'' True]
     () example_load start =
     (None,
      \<lparr>run_context = \<lparr>hook_data = [(''out'', Mapping [(''id'', PyInt 7)])]\<rparr>,
       log = [(INFO, ExecutingHooks ''pre_build'' [''hooks.raises'', ''hooks.data'']),
              (EXCEPTION, MethodThrew ''hooks.raises''),
              (DEBUG, AddingResult ''hooks.data'' ''out'')]\<rparr>)"
proof -
  let ?post = "[example_hook ''hooks.data'' ''out'' True]"
  let ?st1 = "\<lambda>p req. logged INFO (ExecutingHooks ''pre_build''
      (map path ([] @ example_hook p ''a'' req # ?post))) start"
  have f: "handle_hooks ''pre_build'' ([] @ example_hook ''hooks.falsy'' ''a'' req # ?post)
      () example_load start =
      (if required (example_hook ''hooks.falsy'' ''a'' req)
       then (Some (SystemExit 1),
             logged ERROR (RequiredHookFailed (path (example_hook ''hooks.falsy'' ''a'' req))
               (Value (PyInt 0)))
               ((?st1 ''hooks.falsy'' req)\<lparr>run_context := run_context (?st1 ''hooks.falsy'' req)\<rparr>))
       else run_hooks () example_load ?post
              (logged WARNING (NonRequiredHookFailed (path (example_hook ''hooks.falsy'' ''a'' req))
                 (Value (PyInt 0)))
                 ((?st1 ''hooks.falsy'' req)\<lparr>run_context := run_context (?st1 ''hooks.falsy'' req)\<rparr>)))"
    for req
    by (rule handle_hooks_failure_policy
        [where hook_method = "\<lambda>provider c kwargs. (Inr (Value (PyInt 0)), c)",
          THEN conjunct1, rule_format])
      (simp_all add: example_loads)
  have r: "handle_hooks ''pre_build'' ([] @ example_hook ''hooks.raises'' ''a'' req # ?post)
      () example_load start =
      (if required (example_hook ''hooks.raises'' ''a'' req)
       then (Some (RuntimeError ''boom''),
             logged EXCEPTION (MethodThrew (path (example_hook ''hooks.raises'' ''a'' req)))
               ((?st1 ''hooks.raises'' req)\<lparr>run_context := run_context (?st1 ''hooks.raises'' req)\<rparr>))
       else run_hooks () example_load ?post
              (logged EXCEPTION (MethodThrew (path (example_hook ''hooks.raises'' ''a'' req)))
                 ((?st1 ''hooks.raises'' req)\<lparr>run_context := run_context (?st1 ''hooks.raises'' req)\<rparr>)))"
    for req
    by (rule handle_hooks_failure_policy
        [where hook_method = "\<lambda>provider c kwargs. (Inl (RuntimeError ''boom''), c)",
          THEN conjunct2, THEN conjunct1, rule_format])
      (simp_all add: example_loads)
  show ?thesis
    using f [of True] f [of False] r [of True] r [of False]
    by (simp add: run_data_hook logged_def start_def set_hook_data_def del: run_hooks.simps)
qed

text \<open>
  The claim as first stated fails for an optional hook whose handler calls
  \<open>sys.exit(2)\<close>: the exception is neither logged nor swallowed, and the hook after it is
  not run.
\<close>

theorem handle_hooks_optional_exit_counterexample:
  "handle_hooks ''pre_build''
     [example_hook ''hooks.exits'' ''a'' False, example_hook ''hooks.data'' ''out'' True]
     () example_load start =
     (Some (SystemExit 2),
      \<lparr>run_context = \<lparr>hook_data = []\<rparr>,
       log = [(INFO, ExecutingHooks ''pre_build'' [''hooks.exits'', ''hooks.data''])]\<rparr>) \<and>
   required (example_hook ''hooks.exits'' ''a'' False) = False"
  by (simp add: handle_hooks_def hook_step_def example_loads logged_def start_def)

text \<open>
  C9. When the handler of an enabled hook returns the empty mapping, the hook has failed:
  a required hook ends the run with \<open>sys.exit(1)\<close> after logging an error, an optional one
  logs a warning and the remaining hooks are run. In both cases the context is the one
  the handler left: \<open>handle_hooks\<close> stores nothing under the data key of the hook.
\<close>

theorem handle_hooks_empty_mapping:
  assumes "run_hooks provider load pre
             (logged INFO (ExecutingHooks stage (map path (pre @ hook # post))) st) = (None, st1)"
    and "enabled hook"
    and "load (path hook) = Inr hook_method"
    and "hook_method provider (run_context st1) (case args hook of None \<Rightarrow> [] | Some a \<Rightarrow> a) =
           (Inr (Mapping []), c)"
  shows "handle_hooks stage (pre @ hook # post) provider load st =
           (if required hook
            then (Some (SystemExit 1),
                  \<lparr>run_context = c,
                   log = log st1 @ [(ERROR, RequiredHookFailed (path hook) (Mapping []))]\<rparr>)
            else run_hooks provider load post
                   \<lparr>run_context = c,
                    log = log st1 @ [(WARNING, NonRequiredHookFailed (path hook) (Mapping []))]\<rparr>)"
  using assms(2-4)
  by (simp add: handle_hooks_at [OF assms(1)] hook_step_def logged_context)

theorem handle_hooks_empty_mapping_witness:
  "handle_hooks ''pre_build''
     [example_hook ''hooks.empty'' ''a'' True, example_hook ''hooks.data'' ''out'' True]
     () example_load start =
     (Some (SystemExit 1),
      \<lparr>run_context = \<lparr>hook_data = []\<rparr>,
       log = [(INFO, ExecutingHooks ''pre_build'' [''hooks.empty'', ''hooks.data'']),
              (ERROR, RequiredHookFailed ''hooks.empty'' (Mapping []))]\<rparr>) \<and>
   handle_hooks ''pre_build''
     [example_hook ''hooks.empty'' ''a'' False, example_hook ''hooks.data'' ''out'' True]
     () example_load start =
     (None,
      \<lparr>run_context = \<lparr>hook_data = [(''out'', Mapping [(''id'', PyInt 7)])]\<rparr>,
       log = [(INFO, ExecutingHooks ''pre_build'' [''hooks.empty'', ''hooks.data'']),
              (WARNING, NonRequiredHookFailed ''hooks.empty'' (Mapping [])),
              (DEBUG, AddingResult ''hooks.data'' ''out'')]\<rparr>)"
proof -
  let ?post = "[example_hook ''hooks.data'' ''out'' True]"
  let ?st1 = "\<lambda>req. logged INFO (ExecutingHooks ''pre_build''
      (map path ([] @ example_hook ''hooks.empty'' ''a'' req # ?post))) start"
  have e: "handle_hooks ''pre_build'' ([] @ example_hook ''hooks.empty'' ''a'' req # ?post)
      () example_load start =
      (if required (example_hook ''hooks.empty'' ''a'' req)
       then (Some (SystemExit 1),
             \<lparr>run_context = run_context (?st1 req),
              log = log (?st1 req) @
                [(ERROR, RequiredHookFailed (path (example_hook ''hooks.empty'' ''a'' req))
                   (Mapping []))]\<rparr>)
       else run_hooks () example_load ?post
              \<lparr>run_context = run_context (?st1 req),
               log = log (?st1 req) @
                 [(WARNING, NonRequiredHookFailed (path (example_hook ''hooks.empty'' ''a'' req))
                    (Mapping []))]\<rparr>)"
    for req
    by (rule handle_hooks_empty_mapping
        [where hook_method = "\<lambda>provider c kwargs. (Inr (Mapping []), c)"])
      (simp_all add: example_loads)
  show ?thesis
    using e [of True] e [of False]
    by (simp add: run_data_hook logged_def start_def set_hook_data_def del: run_hooks.simps)
qed

section \<open>Properties of the diff action\<close>

text \<open>
  C8. When \<open>_diff_stack\<close> reaches the provider (no cancellation, the stack is to be
  submitted and updated, and the calls before succeed) and the provider raises
  \<open>StackDidNotChange\<close>, the exception is caught, "No changes" is logged with the name of
  the stack, and \<open>_diff_stack\<close> returns \<open>COMPLETE\<close>.
\<close>

theorem diff_stack_no_change_is_complete:
  assumes "\<not> cancel_wait self" and "should_submit self stack" and "should_update self stack"
    and "build_provider self stack = Inr provider"
    and "build_stack_tags self stack = Inr tags"
    and "resolve self provider stack = Inr stack'"
    and "build_parameters self stack' = Inr parameters"
    and "template self stack' = Inr t"
    and "get_stack_changes self provider stack' t parameters tags = Inl StackDidNotChange"
  shows "diff_stack self stack lg =
           (Inr COMPLETE, stack', lg @ [(INFO, NoChanges (fqn stack'))])"
  using assms by (simp add: diff_stack_def)

theorem diff_stack_no_change_is_complete_witness:
  "diff_stack (example_action False) \<lparr>fqn = ''prod-vpc'', outputs = []\<rparr> [] =
     (Inr COMPLETE, \<lparr>fqn = ''prod-vpc'', outputs = []\<rparr>, [(INFO, NoChanges ''prod-vpc'')]) \<and>
   diff_stack (example_action True) \<lparr>fqn = ''prod-vpc'', outputs = []\<rparr> [] =
     (Inr COMPLETE, \<lparr>fqn = ''prod-vpc'', outputs = [(''VpcId'', PyStr ''vpc-1'')]\<rparr>, [])"
proof -
  let ?stack = "\<lparr>fqn = ''prod-vpc'', outputs = []\<rparr>"
  have "diff_stack (example_action False) ?stack [] =
      (Inr COMPLETE, ?stack, [] @ [(INFO, NoChanges (fqn ?stack))])"
    by (rule diff_stack_no_change_is_complete [where provider = "()" and tags = "[]"
          and parameters = "[(''Env'', PyStr ''dev'')]" and t = "''{}''"])
      (simp_all add: example_action_def)
  moreover have "diff_stack (example_action True) ?stack [] =
      (Inr COMPLETE, \<lparr>fqn = ''prod-vpc'', outputs = [(''VpcId'', PyStr ''vpc-1'')]\<rparr>, [])"
    by (simp add: diff_stack_def example_action_def)
  ultimately show ?thesis by simp
qed

end
